theory Spec2Isabelle
  imports Main
begin

section \<open>The generic repository over a document collection\<close>

text \<open>
  The development embeds \<^verbatim>\<open>src/lib/repositories/base/repository.ts\<close>: the abstract class
  \<^verbatim>\<open>Repository<T, K>\<close>, a facade over one mongoose \<^verbatim>\<open>Model<T>\<close>. The repository keeps no
  state of its own, so every operation is a function from the state of the collection to a
  result and the next state of the collection. A thrown \<^verbatim>\<open>Error\<close> (a rejected promise) is the
  left summand of the result.

  A JavaScript number is an IEEE-754 double. The model has the integers among them, the two
  infinities and \<^verbatim>\<open>NaN\<close>, with the arithmetic of doubles (round to nearest, ties to even);
  fractions are outside the model, and \<^verbatim>\<open>-0\<close> is not told from \<^verbatim>\<open>0\<close>.
\<close>

subsection \<open>Numbers\<close>

text \<open>\<open>Finite n\<close> is a number of the source when \<open>n\<close> is an integer that a double holds, that
  is when \<open>to_double n = Finite n\<close>; every integer below \<open>2 ^ 53\<close> in magnitude is one.\<close>

datatype number = Finite int | Infinity | MinusInfinity | NaN

text \<open>The number of low bits that a double drops from a natural number: none below
  \<open>2 ^ 53\<close>, and one more for each further bit.\<close>

function exponent :: "nat \<Rightarrow> nat" where
  "exponent n = (if n < 2 ^ 53 then 0 else Suc (exponent (n div 2)))"
  by pat_completeness auto
termination
  by (relation "measure id") auto

declare exponent.simps [simp del]

text \<open>Rounding to 53 significant bits, to the nearest, a tie to the even significand.\<close>

definition round_nat :: "nat \<Rightarrow> nat" where
  "round_nat n =
     (let e = exponent n; q = n div 2 ^ e; r = n mod 2 ^ e
      in if 2 ^ e < 2 * r \<or> (2 * r = 2 ^ e \<and> odd q) then (q + 1) * 2 ^ e else q * 2 ^ e)"

text \<open>The double nearest to an integer; from \<open>2 ^ 1024\<close> on the rounded value overflows.\<close>

definition to_double :: "int \<Rightarrow> number" where
  "to_double z =
     (let m = round_nat (nat \<bar>z\<bar>)
      in if 2 ^ 1024 \<le> m then (if z < 0 then MinusInfinity else Infinity)
         else Finite (if z < 0 then - int m else int m))"

text \<open>The sign of a number, \<open>0\<close> for zero and for \<^verbatim>\<open>NaN\<close>.\<close>

fun sign :: "number \<Rightarrow> int" where
  "sign (Finite a) = sgn a"
| "sign Infinity = 1"
| "sign MinusInfinity = - 1"
| "sign NaN = 0"

text \<open>\<^verbatim>\<open>x > 0\<close>, \<^verbatim>\<open>x - y\<close> and \<^verbatim>\<open>x * y\<close> on numbers.\<close>

fun js_gt0 :: "number \<Rightarrow> bool" where
  "js_gt0 (Finite a) = (0 < a)"
| "js_gt0 Infinity = True"
| "js_gt0 MinusInfinity = False"
| "js_gt0 NaN = False"

fun js_sub :: "number \<Rightarrow> number \<Rightarrow> number" where
  "js_sub NaN y = NaN"
| "js_sub x NaN = NaN"
| "js_sub (Finite a) (Finite b) = to_double (a - b)"
| "js_sub (Finite a) Infinity = MinusInfinity"
| "js_sub (Finite a) MinusInfinity = Infinity"
| "js_sub Infinity Infinity = NaN"
| "js_sub Infinity y = Infinity"
| "js_sub MinusInfinity MinusInfinity = NaN"
| "js_sub MinusInfinity y = MinusInfinity"

fun js_mul :: "number \<Rightarrow> number \<Rightarrow> number" where
  "js_mul NaN y = NaN"
| "js_mul x NaN = NaN"
| "js_mul (Finite a) (Finite b) = to_double (a * b)"
| "js_mul x y =
     (if sign x * sign y = 0 then NaN
      else if 0 < sign x * sign y then Infinity else MinusInfinity)"

subsection \<open>Data\<close>

type_synonym ident = string

text \<open>\<^verbatim>\<open>Projection\<close>: field name to \<^verbatim>\<open>1 | 0\<close> (\<open>True\<close> is 1). \<^verbatim>\<open>Sort\<close>: field name to
  \<^verbatim>\<open>1 | -1\<close>. The empty object \<^verbatim>\<open>{}\<close> is the empty list.\<close>

type_synonym projection = "(string \<times> bool) list"

datatype direction = Ascending | Descending

type_synonym sort_spec = "(string \<times> direction) list"

text \<open>The filters the repository hands to the model: \<^verbatim>\<open>{}\<close>, \<^verbatim>\<open>{_id: {$in: ids}}\<close>, and the
  caller's filter of \<^verbatim>\<open>find\<close>, which the repository passes on as it is.\<close>

datatype 'f query_filter = MatchAll | IdIn "ident list" | Filter 'f

text \<open>The mongoose query object that \<^verbatim>\<open>model.find(filter, projection)\<close> returns and that
  \<^verbatim>\<open>sort\<close>, \<^verbatim>\<open>skip\<close> and \<^verbatim>\<open>limit\<close> update before \<^verbatim>\<open>exec\<close> sends it.\<close>

record 'f query =
  q_filter :: "'f query_filter"
  q_projection :: "projection option"
  q_sort :: "sort_spec option"
  q_skip :: "number option"
  q_limit :: "number option"

text \<open>One call that reaches the model (the storage handle).\<close>

datatype ('f, 'k) request =
    FindById ident projection
  | Exec "'f query"
  | Create 'k
  | FindByIdAndRemove ident
  | DeleteMany "'f query_filter"

text \<open>The collection: its documents in storage order, and the calls the model has received,
  oldest first.\<close>

record ('d, 'f, 'k) store =
  docs :: "'d list"
  trace :: "('f, 'k) request list"

text \<open>The errors of the source. Every \<^verbatim>\<open>throw\<close> of the repository is a plain \<^verbatim>\<open>Error\<close> with a
  message; an error of the storage engine passes through the repository untouched.\<close>

datatype error = Error string | StorageFailure

definition InvalidArgument :: "error \<Rightarrow> bool" where
  "InvalidArgument e \<longleftrightarrow> e = Error ''Invalid Id'' \<or> e = Error ''Empty object provided''"

definition NotImplemented :: "error \<Rightarrow> bool" where
  "NotImplemented e \<longleftrightarrow> e = Error ''Method not implemented.''"

text \<open>A value passed where the source expects \<^verbatim>\<open>data: K\<close>: at run time it is \<^verbatim>\<open>undefined\<close>,
  \<^verbatim>\<open>null\<close> or an object. An object is truthy, also the empty object \<^verbatim>\<open>{}\<close>.\<close>

datatype 'k payload = Undefined | Null | Given 'k

fun truthy :: "'k payload \<Rightarrow> bool" where
  "truthy Undefined = False"
| "truthy Null = False"
| "truthy (Given k) = True"

text \<open>The third argument of \<^verbatim>\<open>find\<close>: the overload signature admits \<^verbatim>\<open>number | Projection\<close>,
  and the implementation reads it as \<^verbatim>\<open>page\<close>.\<close>

datatype page_arg = Page number | Proj projection

subsection \<open>The storage handle\<close>

text \<open>
  Modelled from the spec: the storage engine behind the mongoose model is not part of the
  repository. Its parts that the repository cannot see are parameters: the identifier
  validator (\<^verbatim>\<open>Types.ObjectId.isValid\<close>), the identifier of a stored document, the meaning of
  a caller's filter, of a sort specification (a rank; the sort is stable) and of a projection
  (\<^verbatim>\<open>lean\<close>), the document that \<^verbatim>\<open>model.create\<close> builds from a payload (with the fields the
  engine assigns), \<^verbatim>\<open>toObject\<close>, and the faults: \<open>fails\<close> says whether the engine rejects a
  request in a given state, \<open>survives\<close> which of the targeted documents a rejected bulk delete
  has not deleted.
\<close>

record ('d, 'f, 'k) engine =
  isValid :: "ident \<Rightarrow> bool"
  idOf :: "'d \<Rightarrow> ident"
  matches :: "'f \<Rightarrow> 'd \<Rightarrow> bool"
  rank :: "sort_spec \<Rightarrow> 'd \<Rightarrow> int"
  lean :: "projection option \<Rightarrow> 'd \<Rightarrow> 'k"
  build :: "'d list \<Rightarrow> 'k \<Rightarrow> 'd"
  toObject :: "'d \<Rightarrow> 'k"
  fails :: "('d, 'f, 'k) store \<Rightarrow> ('f, 'k) request \<Rightarrow> bool"
  survives :: "('d, 'f, 'k) store \<Rightarrow> 'd \<Rightarrow> bool"

fun selects :: "('d, 'f, 'k) engine \<Rightarrow> 'f query_filter \<Rightarrow> 'd \<Rightarrow> bool" where
  "selects eng MatchAll d = True"
| "selects eng (IdIn ids) d = (idOf eng d \<in> set ids)"
| "selects eng (Filter f) d = matches eng f d"

definition received ::
  "('f, 'k) request \<Rightarrow> ('d, 'f, 'k) store \<Rightarrow> ('d, 'f, 'k) store" where
  "received r s = s\<lparr>trace := trace s @ [r]\<rparr>"

fun remove_first :: "('a \<Rightarrow> bool) \<Rightarrow> 'a list \<Rightarrow> 'a list" where
  "remove_first P [] = []"
| "remove_first P (x # xs) = (if P x then xs else x # remove_first P xs)"

text \<open>Modelled from the spec: \<^verbatim>\<open>findById(id, projection)\<close>, the record or null.\<close>

definition model_findById ::
  "('d, 'f, 'k) engine \<Rightarrow> ident \<Rightarrow> projection \<Rightarrow> ('d, 'f, 'k) store
     \<Rightarrow> (error + 'k option) \<times> ('d, 'f, 'k) store" where
  "model_findById eng i p s =
     (if fails eng s (FindById i p) then (Inl StorageFailure, received (FindById i p) s)
      else (Inr (map_option (lean eng (Some p)) (find (\<lambda>d. idOf eng d = i) (docs s))),
            received (FindById i p) s))"

text \<open>Modelled from the spec: \<^verbatim>\<open>find(filter, projection)\<close>, an ordered, skippable, limitable
  cursor over the records. The query is built first and sent by \<^verbatim>\<open>exec\<close>.\<close>

definition model_find :: "'f query_filter \<Rightarrow> projection option \<Rightarrow> 'f query" where
  "model_find f p =
     \<lparr>q_filter = f, q_projection = p, q_sort = None, q_skip = None, q_limit = None\<rparr>"

definition ordered :: "('d, 'f, 'k) engine \<Rightarrow> sort_spec option \<Rightarrow> 'd list \<Rightarrow> 'd list" where
  "ordered eng so ds = (case so of None \<Rightarrow> ds | Some sp \<Rightarrow> sort_key (rank eng sp) ds)"

text \<open>What the engine does with a skip that is negative, or with a limit that is not positive,
  or with one that is infinite or \<^verbatim>\<open>NaN\<close>, is the engine's own; the properties below read a
  result only where the limit is a positive integer and the skip an integer that is not
  negative.\<close>

fun as_count :: "number \<Rightarrow> nat" where
  "as_count (Finite n) = nat n"
| "as_count x = 0"

definition skipped :: "number option \<Rightarrow> 'a list \<Rightarrow> 'a list" where
  "skipped sk ds = (case sk of None \<Rightarrow> ds | Some n \<Rightarrow> drop (as_count n) ds)"

definition limited :: "number option \<Rightarrow> 'a list \<Rightarrow> 'a list" where
  "limited li ds = (case li of None \<Rightarrow> ds | Some n \<Rightarrow> take (as_count n) ds)"

definition cursor :: "('d, 'f, 'k) engine \<Rightarrow> 'f query \<Rightarrow> 'd list \<Rightarrow> 'k list" where
  "cursor eng q ds =
     map (lean eng (q_projection q))
       (limited (q_limit q) (skipped (q_skip q)
          (ordered eng (q_sort q) (filter (selects eng (q_filter q)) ds))))"

definition exec ::
  "('d, 'f, 'k) engine \<Rightarrow> 'f query \<Rightarrow> ('d, 'f, 'k) store
     \<Rightarrow> (error + 'k list) \<times> ('d, 'f, 'k) store" where
  "exec eng q s =
     (if fails eng s (Exec q) then (Inl StorageFailure, received (Exec q) s)
      else (Inr (cursor eng q (docs s)), received (Exec q) s))"

text \<open>Modelled from the spec: \<^verbatim>\<open>insertOne(data)\<close>, the stored record.\<close>

definition model_create ::
  "('d, 'f, 'k) engine \<Rightarrow> 'k \<Rightarrow> ('d, 'f, 'k) store \<Rightarrow> (error + 'd) \<times> ('d, 'f, 'k) store" where
  "model_create eng k s =
     (if fails eng s (Create k) then (Inl StorageFailure, received (Create k) s)
      else (Inr (build eng (docs s) k),
            received (Create k) (s\<lparr>docs := docs s @ [build eng (docs s) k]\<rparr>)))"

text \<open>Modelled from the spec: \<^verbatim>\<open>deleteById(id)\<close>; an identifier that no record has deletes
  nothing.\<close>

definition model_findByIdAndRemove ::
  "('d, 'f, 'k) engine \<Rightarrow> ident \<Rightarrow> ('d, 'f, 'k) store
     \<Rightarrow> (error + 'd option) \<times> ('d, 'f, 'k) store" where
  "model_findByIdAndRemove eng i s =
     (if fails eng s (FindByIdAndRemove i)
      then (Inl StorageFailure, received (FindByIdAndRemove i) s)
      else (Inr (find (\<lambda>d. idOf eng d = i) (docs s)),
            received (FindByIdAndRemove i)
              (s\<lparr>docs := remove_first (\<lambda>d. idOf eng d = i) (docs s)\<rparr>)))"

text \<open>Modelled from the spec: \<^verbatim>\<open>deleteMany(filter)\<close>. A rejected bulk delete may have deleted
  some of the records it targets (the engine's atomicity is not the repository's), never a
  record outside the filter.\<close>

definition model_deleteMany ::
  "('d, 'f, 'k) engine \<Rightarrow> 'f query_filter \<Rightarrow> ('d, 'f, 'k) store
     \<Rightarrow> (error + unit) \<times> ('d, 'f, 'k) store" where
  "model_deleteMany eng f s =
     (if fails eng s (DeleteMany f)
      then (Inl StorageFailure,
            received (DeleteMany f)
              (s\<lparr>docs := filter (\<lambda>d. if selects eng f d then survives eng s d else True)
                           (docs s)\<rparr>))
      else (Inr (),
            received (DeleteMany f) (s\<lparr>docs := filter (\<lambda>d. \<not> selects eng f d) (docs s)\<rparr>)))"

text \<open>The calls that reach the model while an operation runs from the state \<open>s\<close>.\<close>

definition issued ::
  "('d, 'f, 'k) store \<Rightarrow> 'a \<times> ('d, 'f, 'k) store \<Rightarrow> ('f, 'k) request list" where
  "issued s out = drop (length (trace s)) (trace (snd out))"

subsection \<open>The repository\<close>

text \<open>\<^verbatim>\<open>!id\<close> on a string holds for the empty string only.\<close>

definition get ::
  "('d, 'f, 'k) engine \<Rightarrow> ident \<Rightarrow> projection option \<Rightarrow> ('d, 'f, 'k) store
     \<Rightarrow> (error + 'k option) \<times> ('d, 'f, 'k) store" where
  "get eng i projection s =
     (if i = [] \<or> \<not> isValid eng i then (Inl (Error ''Invalid Id''), s)
      else model_findById eng i (case projection of None \<Rightarrow> [] | Some p \<Rightarrow> p) s)"

definition getAll ::
  "('d, 'f, 'k) engine \<Rightarrow> number option \<Rightarrow> number option \<Rightarrow> sort_spec option
     \<Rightarrow> projection option \<Rightarrow> ('d, 'f, 'k) store \<Rightarrow> (error + 'k list) \<times> ('d, 'f, 'k) store" where
  "getAll eng limit_arg page_arg sort_arg projection s =
     (let limit = (case limit_arg of None \<Rightarrow> Finite 20 | Some n \<Rightarrow> n);
          page = (case page_arg of None \<Rightarrow> Finite 1 | Some n \<Rightarrow> n);
          query = model_find MatchAll (Some (case projection of None \<Rightarrow> [] | Some p \<Rightarrow> p));
          query = (case sort_arg of None \<Rightarrow> query | Some sp \<Rightarrow> query\<lparr>q_sort := Some sp\<rparr>);
          query = (if js_gt0 page
                   then query\<lparr>q_skip := Some (js_mul limit (js_sub page (Finite 1)))\<rparr>
                   else query);
          query = query\<lparr>q_limit := Some limit\<rparr>
      in exec eng query s)"

text \<open>\<^verbatim>\<open>page > 0\<close> is false for an object, so a projection in the place of \<^verbatim>\<open>page\<close> skips
  nothing (and is not used as the projection).\<close>

definition find_docs ::
  "('d, 'f, 'k) engine \<Rightarrow> 'f \<Rightarrow> number option \<Rightarrow> page_arg option \<Rightarrow> sort_spec option
     \<Rightarrow> projection option \<Rightarrow> ('d, 'f, 'k) store \<Rightarrow> (error + 'k list) \<times> ('d, 'f, 'k) store" where
  "find_docs eng f limit_arg page_arg sort_arg projection s =
     (let limit = (case limit_arg of None \<Rightarrow> Finite 10 | Some n \<Rightarrow> n);
          page = (case page_arg of None \<Rightarrow> Page (Finite 0) | Some a \<Rightarrow> a);
          query = model_find (Filter f) projection;
          query = (case sort_arg of None \<Rightarrow> query | Some sp \<Rightarrow> query\<lparr>q_sort := Some sp\<rparr>);
          query = (case page of
                     Page n \<Rightarrow>
                       if js_gt0 n
                       then query\<lparr>q_skip := Some (js_mul limit (js_sub n (Finite 1)))\<rparr>
                       else query
                   | Proj pr \<Rightarrow> query);
          query = query\<lparr>q_limit := Some limit\<rparr>
      in exec eng query s)"

text \<open>\<^verbatim>\<open>!data\<close> holds for \<^verbatim>\<open>undefined\<close> and \<^verbatim>\<open>null\<close>; every object passes the guard.\<close>

definition create ::
  "('d, 'f, 'k) engine \<Rightarrow> 'k payload \<Rightarrow> ('d, 'f, 'k) store
     \<Rightarrow> (error + 'k) \<times> ('d, 'f, 'k) store" where
  "create eng data s =
     (if \<not> truthy data then (Inl (Error ''Empty object provided''), s)
      else (case data of
              Given k \<Rightarrow>
                (case model_create eng k s of
                   (Inl e, s') \<Rightarrow> (Inl e, s')
                 | (Inr d, s') \<Rightarrow> (Inr (toObject eng d), s'))
            | _ \<Rightarrow> (Inl (Error ''Empty object provided''), s)))"

definition createMany ::
  "('d, 'f, 'k) engine \<Rightarrow> 'k list \<Rightarrow> ('d, 'f, 'k) store
     \<Rightarrow> (error + 'k list) \<times> ('d, 'f, 'k) store" where
  "createMany eng data s = (Inl (Error ''Method not implemented.''), s)"

definition remove_doc ::
  "('d, 'f, 'k) engine \<Rightarrow> ident \<Rightarrow> ('d, 'f, 'k) store \<Rightarrow> (error + unit) \<times> ('d, 'f, 'k) store" where
  "remove_doc eng i s =
     (if i = [] \<or> \<not> isValid eng i then (Inl (Error ''Invalid Id''), s)
      else (case model_findByIdAndRemove eng i s of
              (Inl e, s') \<Rightarrow> (Inl e, s')
            | (Inr d, s') \<Rightarrow> (Inr (), s')))"

text \<open>\<^verbatim>\<open>ids\<close> is optional: \<open>None\<close> is the absent argument, for which \<^verbatim>\<open>Array.isArray\<close> is
  false.\<close>

definition removeMany ::
  "('d, 'f, 'k) engine \<Rightarrow> ident list option \<Rightarrow> ('d, 'f, 'k) store
     \<Rightarrow> (error + unit) \<times> ('d, 'f, 'k) store" where
  "removeMany eng ids s =
     (case ids of
        Some (i # is) \<Rightarrow>
          (case model_deleteMany eng (IdIn (i # is)) s of
             (Inl e, s') \<Rightarrow> (Inl e, s')
           | (Inr u, s') \<Rightarrow> model_deleteMany eng MatchAll s')
      | _ \<Rightarrow> model_deleteMany eng MatchAll s)"

subsection \<open>An in-memory engine\<close>

text \<open>A small engine to run the repository on: documents are an identifier with named string
  fields, an identifier is valid when it is 24 hexadecimal digits, a caller's filter is one
  field with the value it must have, and the engine never fails. The second engine rejects
  every bulk delete by identifiers, after deleting the targeted documents that have no
  fields.\<close>

type_synonym plain = "(string \<times> string) list"

type_synonym mem_doc = "ident \<times> plain"

definition hex_digit :: "char \<Rightarrow> bool" where
  "hex_digit c \<longleftrightarrow> c \<in> set ''0123456789abcdefABCDEF''"

definition objectId_like :: "ident \<Rightarrow> bool" where
  "objectId_like i \<longleftrightarrow> length i = 24 \<and> list_all hex_digit i"

definition project :: "projection option \<Rightarrow> plain \<Rightarrow> plain" where
  "project p fs =
     (case p of
        None \<Rightarrow> fs
      | Some ps \<Rightarrow>
          if list_ex snd ps then filter (\<lambda>nv. (fst nv, True) \<in> set ps) fs
          else filter (\<lambda>nv. (fst nv, False) \<notin> set ps) fs)"

definition by_length :: "sort_spec \<Rightarrow> mem_doc \<Rightarrow> int" where
  "by_length sp d =
     (case sp of
        [] \<Rightarrow> 0
      | (n, dir) # _ \<Rightarrow>
          (case map_of (snd d) n of
             None \<Rightarrow> 0
           | Some v \<Rightarrow> (case dir of Ascending \<Rightarrow> int (length v) | Descending \<Rightarrow> - int (length v))))"

definition mem_engine :: "(mem_doc, string \<times> string, plain) engine" where
  "mem_engine =
     \<lparr>isValid = objectId_like,
      idOf = fst,
      matches = (\<lambda>f d. f \<in> set (snd d)),
      rank = by_length,
      lean = (\<lambda>p d. (''_id'', fst d) # project p (snd d)),
      build = (\<lambda>ds k. (replicate 23 CHR ''0'' @ [''0123456789abcdef'' ! (length ds mod 16)], k)),
      toObject = (\<lambda>d. (''_id'', fst d) # snd d),
      fails = (\<lambda>s r. False),
      survives = (\<lambda>s d. True)\<rparr>"

definition flaky_engine :: "(mem_doc, string \<times> string, plain) engine" where
  "flaky_engine =
     mem_engine
       \<lparr>fails := (\<lambda>s r. case r of DeleteMany (IdIn ids) \<Rightarrow> True | _ \<Rightarrow> False),
        survives := (\<lambda>s d. snd d \<noteq> [])\<rparr>"

definition id1 :: ident where "id1 = ''5f0000000000000000000001''"
definition id2 :: ident where "id2 = ''5f0000000000000000000002''"
definition id3 :: ident where "id3 = ''5f0000000000000000000003''"
definition id4 :: ident where "id4 = ''5f0000000000000000000004''"
definition id5 :: ident where "id5 = ''5f0000000000000000000005''"
definition id9 :: ident where "id9 = ''5f0000000000000000000009''"

definition five :: "(mem_doc, string \<times> string, plain) store" where
  "five =
     \<lparr>docs = [(id1, [(''name'', ''a'')]), (id2, []), (id3, [(''name'', ''c'')]),
              (id4, [(''name'', ''d'')]), (id5, [(''name'', ''c'')])],
      trace = [FindById id1 []]\<rparr>"

definition no_docs :: "(mem_doc, string \<times> string, plain) store" where
  "no_docs = \<lparr>docs = [], trace = []\<rparr>"

section \<open>Properties\<close>

subsection \<open>The calls an operation issues\<close>

lemma issued_received [simp]: "issued s (r, received q s) = [q]"
  by (simp add: issued_def received_def)

lemma issued_same [simp]: "issued s (r, s) = []"
  by (simp add: issued_def)

lemma docs_received [simp]: "docs (received q s) = docs s"
  by (simp add: received_def)

lemma trace_received [simp]: "trace (received q s) = trace s @ [q]"
  by (simp add: received_def)

lemma exec_issued: "issued s (exec eng q s) = [Exec q]"
  by (simp add: exec_def)

lemma exec_ok: "\<not> fails eng s (Exec q) \<Longrightarrow> fst (exec eng q s) = Inr (cursor eng q (docs s))"
  by (simp add: exec_def)

lemma exec_docs: "docs (snd (exec eng q s)) = docs s"
  by (simp add: exec_def)

text \<open>The query that \<^verbatim>\<open>getAll\<close> and \<^verbatim>\<open>find\<close> build, whatever the arguments.\<close>

lemma getAll_query:
  "getAll eng limit_arg page_arg so p s =
     exec eng
       \<lparr>q_filter = MatchAll,
        q_projection = Some (case p of None \<Rightarrow> [] | Some ps \<Rightarrow> ps),
        q_sort = so,
        q_skip = (if js_gt0 (case page_arg of None \<Rightarrow> Finite 1 | Some n \<Rightarrow> n)
                  then Some (js_mul (case limit_arg of None \<Rightarrow> Finite 20 | Some n \<Rightarrow> n)
                               (js_sub (case page_arg of None \<Rightarrow> Finite 1 | Some n \<Rightarrow> n)
                                  (Finite 1)))
                  else None),
        q_limit = Some (case limit_arg of None \<Rightarrow> Finite 20 | Some n \<Rightarrow> n)\<rparr> s"
  by (simp add: getAll_def model_find_def Let_def split: option.splits)

lemma find_docs_query:
  "find_docs eng f limit_arg page_arg so p s =
     exec eng
       \<lparr>q_filter = Filter f,
        q_projection = p,
        q_sort = so,
        q_skip = (case (case page_arg of None \<Rightarrow> Page (Finite 0) | Some a \<Rightarrow> a) of
                    Page n \<Rightarrow>
                      if js_gt0 n
                      then Some (js_mul (case limit_arg of None \<Rightarrow> Finite 10 | Some l \<Rightarrow> l)
                                   (js_sub n (Finite 1)))
                      else None
                  | Proj pr \<Rightarrow> None),
        q_limit = Some (case limit_arg of None \<Rightarrow> Finite 10 | Some n \<Rightarrow> n)\<rparr> s"
  by (simp add: find_docs_def model_find_def Let_def split: option.splits page_arg.splits)

subsection \<open>Arithmetic of doubles on integers\<close>

lemma exponent_small: "n < 2 ^ 53 \<Longrightarrow> exponent n = 0"
  by (simp add: exponent.simps)

lemma round_nat_small: "n < 2 ^ 53 \<Longrightarrow> round_nat n = n"
  by (simp add: round_nat_def exponent_small)

lemma to_double_small: "\<bar>z\<bar> < 2 ^ 53 \<Longrightarrow> to_double z = Finite z"
proof -
  assume b: "\<bar>z\<bar> < 2 ^ 53"
  then have n: "nat \<bar>z\<bar> < 2 ^ 53"
    by (simp add: nat_less_iff)
  have "(2::nat) ^ 53 \<le> 2 ^ 1024"
    by (rule power_increasing) simp_all
  with n have "\<not> 2 ^ 1024 \<le> nat \<bar>z\<bar>"
    by linarith
  with n show ?thesis
    by (simp add: to_double_def round_nat_small Let_def)
qed

text \<open>Within the integers that a double holds exactly, the product of the source is the
  product of the integers.\<close>

lemma skip_exact:
  "0 < g \<Longrightarrow> g \<le> 2 ^ 53 \<Longrightarrow> \<bar>l * (g - 1)\<bar> < 2 ^ 53 \<Longrightarrow>
     js_mul (Finite l) (js_sub (Finite g) (Finite 1)) = Finite (l * (g - 1))"
proof -
  assume "0 < g" and "g \<le> 2 ^ 53" and b: "\<bar>l * (g - 1)\<bar> < 2 ^ 53"
  then have "\<bar>g - 1\<bar> < 2 ^ 53"
    by simp
  then have "js_sub (Finite g) (Finite 1) = Finite (g - 1)"
    by (simp add: to_double_small)
  with b show ?thesis
    by (simp add: to_double_small)
qed

text \<open>Beyond them it is not: \<open>3 \<times> 3002399751580331\<close> is \<open>2 ^ 53 + 1\<close>, which rounds to
  \<open>2 ^ 53\<close>.\<close>

lemma skip_rounded:
  "js_mul (Finite 3) (js_sub (Finite 3002399751580332) (Finite 1)) = Finite 9007199254740992"
proof -
  have s: "js_sub (Finite 3002399751580332) (Finite 1) = Finite 3002399751580331"
    by (simp add: to_double_small)
  have e: "exponent 9007199254740993 = 1"
    by (simp add: exponent.simps [of 9007199254740993] exponent.simps [of 4503599627370496])
  have r: "round_nat 9007199254740993 = 9007199254740992"
    by (simp add: round_nat_def e)
  have m: "js_mul (Finite 3) (Finite 3002399751580331) = to_double 9007199254740993"
    by simp
  have t: "to_double 9007199254740993 = Finite 9007199254740992"
    by (simp add: to_double_def r)
  show ?thesis
    by (simp only: s m t)
qed

lemma length_ordered [simp]: "length (ordered eng so ds) = length ds"
  by (simp add: ordered_def split: option.splits)

subsection \<open>Facts about the in-memory engine\<close>

lemma valid_ids:
  "objectId_like id1" "objectId_like id2" "objectId_like id9"
  by (simp_all add: objectId_like_def hex_digit_def id1_def id2_def id9_def)

lemma invalid_id: "\<not> objectId_like ''not-an-id''"
  by (simp add: objectId_like_def)

lemma distinct_ids:
  "id9 \<noteq> id1" "id9 \<noteq> id2" "id9 \<noteq> id3" "id9 \<noteq> id4" "id9 \<noteq> id5"
  "id1 \<noteq> id2" "id1 \<noteq> id3" "id1 \<noteq> id4" "id1 \<noteq> id5"
  "id2 \<noteq> id3" "id2 \<noteq> id4" "id2 \<noteq> id5"
  by (simp_all add: id1_def id2_def id3_def id4_def id5_def id9_def)

lemma mem_engine_sel [simp]:
  "isValid mem_engine = objectId_like"
  "idOf mem_engine = fst"
  "fails mem_engine s r = False"
  "lean mem_engine p d = (''_id'', fst d) # project p (snd d)"
  by (simp_all add: mem_engine_def)

lemma flaky_engine_sel [simp]:
  "idOf flaky_engine = fst"
  "fails flaky_engine s (DeleteMany (IdIn ids)) = True"
  "survives flaky_engine s d = (snd d \<noteq> [])"
  by (simp_all add: flaky_engine_def mem_engine_def)

lemma issued_received_docs [simp]: "issued s (r, received q (s\<lparr>docs := ds\<rparr>)) = [q]"
  by (simp add: issued_def received_def)

subsection \<open>Bulk deletion\<close>

text \<open>
  C1. Whatever \<open>ids\<close> is (a non-empty list, the empty list, or absent), when \<^verbatim>\<open>removeMany\<close>
  completes without error the collection is empty: the model has received the delete of the
  records whose identifier is in \<open>ids\<close> first, when \<open>ids\<close> is a non-empty list, and then,
  in every case, the delete of all records.
\<close>

theorem removeMany_empties_collection:
  "removeMany eng ids s = (Inr u, s') \<Longrightarrow>
     docs s' = [] \<and>
     trace s' =
       trace s @ (case ids of
                    Some (i # is) \<Rightarrow> [DeleteMany (IdIn (i # is)), DeleteMany MatchAll]
                  | _ \<Rightarrow> [DeleteMany MatchAll])"
  by (auto simp: removeMany_def model_deleteMany_def received_def
      split: option.splits list.splits if_splits)

theorem removeMany_empties_collection_witness:
  "(\<exists>s'. removeMany mem_engine (Some [id1, id2]) five = (Inr (), s') \<and> docs s' = [] \<and>
         trace s' = [FindById id1 [], DeleteMany (IdIn [id1, id2]), DeleteMany MatchAll]) \<and>
   (\<exists>s'. removeMany mem_engine (Some []) five = (Inr (), s') \<and> docs s' = [] \<and>
         trace s' = [FindById id1 [], DeleteMany MatchAll]) \<and>
   (\<exists>s'. removeMany mem_engine None five = (Inr (), s') \<and> docs s' = [] \<and>
         trace s' = [FindById id1 [], DeleteMany MatchAll])"
proof -
  have a: "removeMany mem_engine (Some [id1, id2]) five =
             (Inr (), snd (removeMany mem_engine (Some [id1, id2]) five))"
    by (simp add: removeMany_def model_deleteMany_def)
  have b: "removeMany mem_engine (Some []) five =
             (Inr (), snd (removeMany mem_engine (Some []) five))"
    by (simp add: removeMany_def model_deleteMany_def)
  have c: "removeMany mem_engine None five = (Inr (), snd (removeMany mem_engine None five))"
    by (simp add: removeMany_def model_deleteMany_def)
  have t: "trace five = [FindById id1 []]"
    by (simp add: five_def)
  show ?thesis
    using removeMany_empties_collection [OF a] removeMany_empties_collection [OF b]
      removeMany_empties_collection [OF c] a b c t
    by (metis append_Cons append_Nil list.simps(5) option.simps(4) option.simps(5) list.simps(4))
qed

text \<open>
  C10. When the engine rejects the delete of the records whose identifier is in a non-empty
  \<open>ids\<close>, \<^verbatim>\<open>removeMany\<close> fails with the engine's error, the delete of all records is not sent,
  and the records whose identifier is not in \<open>ids\<close> are the same as before, in the same order.
\<close>

theorem removeMany_targeted_failure:
  "ids \<noteq> [] \<Longrightarrow> fails eng s (DeleteMany (IdIn ids)) \<Longrightarrow>
     fst (removeMany eng (Some ids) s) = Inl StorageFailure \<and>
     issued s (removeMany eng (Some ids) s) = [DeleteMany (IdIn ids)] \<and>
     filter (\<lambda>d. idOf eng d \<notin> set ids) (docs (snd (removeMany eng (Some ids) s))) =
       filter (\<lambda>d. idOf eng d \<notin> set ids) (docs s)"
proof -
  assume ne: "ids \<noteq> []" and f: "fails eng s (DeleteMany (IdIn ids))"
  from ne obtain i "is" where ids: "ids = i # is"
    by (cases ids) auto
  have keep: "filter (\<lambda>d. idOf eng d \<notin> set ids)
                (filter (\<lambda>d. if selects eng (IdIn ids) d then survives eng s d else True)
                   (docs s)) =
              filter (\<lambda>d. idOf eng d \<notin> set ids) (docs s)"
    by (induction "docs s") (auto intro: filter_cong)
  show ?thesis
    using f keep by (simp add: ids removeMany_def model_deleteMany_def)
qed

theorem removeMany_targeted_failure_witness:
  "[id1, id2] \<noteq> [] \<and> fails flaky_engine five (DeleteMany (IdIn [id1, id2])) \<and>
   removeMany flaky_engine (Some [id1, id2]) five =
     (Inl StorageFailure,
      \<lparr>docs = [(id1, [(''name'', ''a'')]), (id3, [(''name'', ''c'')]), (id4, [(''name'', ''d'')]),
               (id5, [(''name'', ''c'')])],
       trace = [FindById id1 [], DeleteMany (IdIn [id1, id2])]\<rparr>) \<and>
   filter (\<lambda>d. fst d \<notin> set [id1, id2]) (docs (snd (removeMany flaky_engine (Some [id1, id2]) five))) =
     [(id3, [(''name'', ''c'')]), (id4, [(''name'', ''d'')]), (id5, [(''name'', ''c'')])]"
proof -
  have h1: "[id1, id2] \<noteq> []" by simp
  have h2: "fails flaky_engine five (DeleteMany (IdIn [id1, id2]))" by simp
  have run: "removeMany flaky_engine (Some [id1, id2]) five =
     (Inl StorageFailure,
      \<lparr>docs = [(id1, [(''name'', ''a'')]), (id3, [(''name'', ''c'')]), (id4, [(''name'', ''d'')]),
               (id5, [(''name'', ''c'')])],
       trace = [FindById id1 [], DeleteMany (IdIn [id1, id2])]\<rparr>)"
    by (simp add: removeMany_def model_deleteMany_def received_def five_def distinct_ids)
  have rest: "filter (\<lambda>d. fst d \<notin> set [id1, id2]) (docs five) =
     [(id3, [(''name'', ''c'')]), (id4, [(''name'', ''d'')]), (id5, [(''name'', ''c'')])]"
    using distinct_ids by (simp add: five_def)
  show ?thesis
    using removeMany_targeted_failure [OF h1 h2] h2 run rest by simp
qed

subsection \<open>Identifiers\<close>

lemma remove_first_none: "\<forall>x\<in>set xs. \<not> P x \<Longrightarrow> remove_first P xs = xs"
  by (induction xs) auto

lemma find_none: "\<forall>x\<in>set xs. \<not> P x \<Longrightarrow> find P xs = None"
  by (simp add: find_None_iff)

text \<open>
  C8. For an identifier that is the empty string or that the engine's validator rejects,
  \<^verbatim>\<open>get\<close> and \<^verbatim>\<open>remove\<close> fail with the invalid-argument error (\<^verbatim>\<open>Invalid Id\<close>), and the model
  receives no call: the state, with its record of calls, is the one before.
\<close>

theorem invalid_identifier_rejected:
  "i = [] \<or> \<not> isValid eng i \<Longrightarrow>
     get eng i p s = (Inl (Error ''Invalid Id''), s) \<and>
     remove_doc eng i s = (Inl (Error ''Invalid Id''), s) \<and>
     InvalidArgument (Error ''Invalid Id'') \<and>
     issued s (get eng i p s) = [] \<and>
     issued s (remove_doc eng i s) = []"
  by (auto simp: get_def remove_doc_def InvalidArgument_def)

theorem invalid_identifier_rejected_witness:
  "(''not-an-id'' = [] \<or> \<not> isValid mem_engine ''not-an-id'') \<and>
   get mem_engine ''not-an-id'' None five = (Inl (Error ''Invalid Id''), five) \<and>
   remove_doc mem_engine ''not-an-id'' five = (Inl (Error ''Invalid Id''), five) \<and>
   get mem_engine [] (Some [(''name'', True)]) five = (Inl (Error ''Invalid Id''), five) \<and>
   remove_doc mem_engine [] five = (Inl (Error ''Invalid Id''), five)"
proof -
  have h: "''not-an-id'' = [] \<or> \<not> isValid mem_engine ''not-an-id''"
    by (simp add: invalid_id)
  have e: "([]::ident) = [] \<or> \<not> isValid mem_engine []"
    by simp
  show ?thesis
    using invalid_identifier_rejected [OF h, of None five]
      invalid_identifier_rejected [OF e, of "Some [(''name'', True)]" five] h
    by simp
qed

text \<open>
  C9. For a valid identifier that no record has, \<^verbatim>\<open>get\<close> returns null and \<^verbatim>\<open>remove\<close>
  completes, unless the engine itself rejects the request; in both cases the records are the
  ones before, so their count is unchanged. The absence of the record is never an error.
\<close>

theorem absent_identifier_is_no_error:
  "i \<noteq> [] \<Longrightarrow> isValid eng i \<Longrightarrow> \<forall>d\<in>set (docs s). idOf eng d \<noteq> i \<Longrightarrow>
     get eng i p s =
       (if fails eng s (FindById i (case p of None \<Rightarrow> [] | Some ps \<Rightarrow> ps))
        then Inl StorageFailure else Inr None,
        received (FindById i (case p of None \<Rightarrow> [] | Some ps \<Rightarrow> ps)) s) \<and>
     remove_doc eng i s =
       (if fails eng s (FindByIdAndRemove i) then Inl StorageFailure else Inr (),
        received (FindByIdAndRemove i) s) \<and>
     docs (snd (get eng i p s)) = docs s \<and>
     docs (snd (remove_doc eng i s)) = docs s \<and>
     length (docs (snd (remove_doc eng i s))) = length (docs s)"
proof -
  assume ne: "i \<noteq> []" and v: "isValid eng i" and a: "\<forall>d\<in>set (docs s). idOf eng d \<noteq> i"
  have f: "find (\<lambda>d. idOf eng d = i) (docs s) = None"
    using a by (simp add: find_none)
  have r: "remove_first (\<lambda>d. idOf eng d = i) (docs s) = docs s"
    using a by (simp add: remove_first_none)
  have g: "get eng i p s =
       (if fails eng s (FindById i (case p of None \<Rightarrow> [] | Some ps \<Rightarrow> ps))
        then Inl StorageFailure else Inr None,
        received (FindById i (case p of None \<Rightarrow> [] | Some ps \<Rightarrow> ps)) s)"
    using ne v f by (simp add: get_def model_findById_def)
  have d: "remove_doc eng i s =
       (if fails eng s (FindByIdAndRemove i) then Inl StorageFailure else Inr (),
        received (FindByIdAndRemove i) s)"
    using ne v r by (simp add: remove_doc_def model_findByIdAndRemove_def)
  show ?thesis
    by (simp add: g d)
qed

theorem absent_identifier_is_no_error_witness:
  "id9 \<noteq> [] \<and> isValid mem_engine id9 \<and> id9 \<notin> set (map (idOf mem_engine) (docs five)) \<and>
   get mem_engine id9 None five = (Inr None, received (FindById id9 []) five) \<and>
   remove_doc mem_engine id9 five = (Inr (), received (FindByIdAndRemove id9) five) \<and>
   length (docs (snd (remove_doc mem_engine id9 five))) = 5"
proof -
  have h1: "id9 \<noteq> []"
    by (simp add: id9_def)
  have h2: "isValid mem_engine id9"
    by (simp add: valid_ids)
  have h3: "\<forall>d\<in>set (docs five). idOf mem_engine d \<noteq> id9"
    using distinct_ids by (auto simp: five_def)
  have n: "length (docs five) = 5"
    by (simp add: five_def)
  have h4: "id9 \<notin> set (map (idOf mem_engine) (docs five))"
    using h3 by auto
  show ?thesis
    using absent_identifier_is_no_error [OF h1 h2 h3, of None] h1 h2 h4 n by simp
qed

subsection \<open>Creation\<close>

lemma create_absent:
  "data = Undefined \<or> data = Null \<Longrightarrow> create eng data s = (Inl (Error ''Empty object provided''), s)"
  by (auto simp: create_def)

lemma create_issued: "issued s (create eng (Given k) s) = [Create k]"
  by (simp add: create_def model_create_def)

lemma create_at_most_one: "length (issued s (create eng data s)) \<le> 1"
  by (cases data) (simp_all add: create_def model_create_def)

text \<open>
  C2. The empty object \<^verbatim>\<open>{}\<close> is truthy, so it passes the guard \<^verbatim>\<open>!data\<close>: \<^verbatim>\<open>create({})\<close> does not
  fail with \<^verbatim>\<open>Empty object provided\<close>; the insert reaches the model, and the in-memory engine
  stores a record with no fields.
\<close>

theorem create_empty_object_reaches_storage:
  "create mem_engine (Given []) no_docs =
     (Inr [(''_id'', ''000000000000000000000000'')],
      \<lparr>docs = [(''000000000000000000000000'', [])], trace = [Create []]\<rparr>)"
proof -
  have zeros: "replicate 23 CHR ''0'' = ''00000000000000000000000''"
    by code_simp
  show ?thesis
    by (simp add: create_def model_create_def mem_engine_def no_docs_def received_def zeros)
qed

text \<open>
  C7. Whatever the input, \<^verbatim>\<open>createMany\<close> of the base class fails with the not-implemented
  error, and the model receives no call.
\<close>

theorem createMany_not_implemented:
  "createMany eng data s = (Inl (Error ''Method not implemented.''), s) \<and>
   NotImplemented (Error ''Method not implemented.'') \<and>
   issued s (createMany eng data s) = []"
  by (simp add: createMany_def NotImplemented_def)

text \<open>
  C3. \<^verbatim>\<open>removeMany\<close> does not validate its identifiers: an identifier that the validator
  rejects is passed to the model inside the filter of the first bulk delete.
\<close>

theorem removeMany_passes_invalid_identifier:
  "\<not> isValid mem_engine ''not-an-id'' \<and>
   issued five (removeMany mem_engine (Some [''not-an-id'']) five) =
     [DeleteMany (IdIn [''not-an-id'']), DeleteMany MatchAll]"
  by (simp add: invalid_id removeMany_def model_deleteMany_def issued_def five_def)

subsection \<open>Requests per call\<close>

lemma get_requests:
  "issued s (get eng i p s) =
     (if i = [] \<or> \<not> isValid eng i then []
      else [FindById i (case p of None \<Rightarrow> [] | Some ps \<Rightarrow> ps)])"
  by (simp add: get_def model_findById_def)

lemma remove_doc_requests:
  "issued s (remove_doc eng i s) =
     (if i = [] \<or> \<not> isValid eng i then [] else [FindByIdAndRemove i])"
  by (simp add: remove_doc_def model_findByIdAndRemove_def)

lemma removeMany_untargeted:
  "ids = None \<or> ids = Some [] \<Longrightarrow> issued s (removeMany eng ids s) = [DeleteMany MatchAll]"
  by (auto simp: removeMany_def model_deleteMany_def)

lemma removeMany_rejected:
  "js \<noteq> [] \<Longrightarrow> fails eng s (DeleteMany (IdIn js)) \<Longrightarrow>
     issued s (removeMany eng (Some js) s) = [DeleteMany (IdIn js)]"
  by (cases js) (simp_all add: removeMany_def model_deleteMany_def)

text \<open>
  C4, as the source has it. \<^verbatim>\<open>createMany\<close> sends nothing to the model: it fails with the
  not-implemented error before any call. \<^verbatim>\<open>removeMany\<close> sends exactly one request when \<open>ids\<close>
  is empty or absent (the delete of all records), and exactly one when \<open>ids\<close> is not empty and
  the engine rejects the delete of the records in \<open>ids\<close> (that delete). \<^verbatim>\<open>getAll\<close> and \<^verbatim>\<open>find\<close>
  send exactly one request. \<^verbatim>\<open>get\<close> and \<^verbatim>\<open>remove\<close> send exactly one request for a valid
  identifier and none for an invalid one; \<^verbatim>\<open>create\<close> sends exactly one for an object and none
  for \<^verbatim>\<open>undefined\<close> or \<^verbatim>\<open>null\<close>.
\<close>

theorem requests_per_call:
  "createMany eng ks s = (Inl (Error ''Method not implemented.''), s) \<and>
   NotImplemented (Error ''Method not implemented.'') \<and>
   issued s (createMany eng ks s) = [] \<and>
   (ids = None \<or> ids = Some [] \<longrightarrow> issued s (removeMany eng ids s) = [DeleteMany MatchAll]) \<and>
   (js \<noteq> [] \<and> fails eng s (DeleteMany (IdIn js)) \<longrightarrow>
      issued s (removeMany eng (Some js) s) = [DeleteMany (IdIn js)]) \<and>
   length (issued s (getAll eng limit_arg page_arg so p s)) = 1 \<and>
   length (issued s (find_docs eng f limit_arg fpage_arg so fp s)) = 1 \<and>
   (i = [] \<or> \<not> isValid eng i \<longrightarrow>
      issued s (get eng i p s) = [] \<and> issued s (remove_doc eng i s) = []) \<and>
   (i \<noteq> [] \<and> isValid eng i \<longrightarrow>
      issued s (get eng i p s) = [FindById i (case p of None \<Rightarrow> [] | Some ps \<Rightarrow> ps)] \<and>
      issued s (remove_doc eng i s) = [FindByIdAndRemove i]) \<and>
   (data = Undefined \<or> data = Null \<longrightarrow> issued s (create eng data s) = []) \<and>
   issued s (create eng (Given k) s) = [Create k]"
proof (intro conjI impI)
  show "createMany eng ks s = (Inl (Error ''Method not implemented.''), s)"
    by (simp add: createMany_def)
  show "NotImplemented (Error ''Method not implemented.'')"
    by (simp add: NotImplemented_def)
  show "issued s (createMany eng ks s) = []"
    by (simp add: createMany_def)
  show "length (issued s (getAll eng limit_arg page_arg so p s)) = 1"
    by (simp add: getAll_query exec_issued)
  show "length (issued s (find_docs eng f limit_arg fpage_arg so fp s)) = 1"
    by (simp add: find_docs_query exec_issued)
  show "issued s (create eng (Given k) s) = [Create k]"
    by (rule create_issued)
next
  assume "ids = None \<or> ids = Some []"
  then show "issued s (removeMany eng ids s) = [DeleteMany MatchAll]"
    by (rule removeMany_untargeted)
next
  assume "js \<noteq> [] \<and> fails eng s (DeleteMany (IdIn js))"
  then show "issued s (removeMany eng (Some js) s) = [DeleteMany (IdIn js)]"
    by (simp add: removeMany_rejected)
next
  assume "i = [] \<or> \<not> isValid eng i"
  then show "issued s (get eng i p s) = []" and "issued s (remove_doc eng i s) = []"
    by (auto simp: get_requests remove_doc_requests)
next
  assume "i \<noteq> [] \<and> isValid eng i"
  then show "issued s (get eng i p s) = [FindById i (case p of None \<Rightarrow> [] | Some ps \<Rightarrow> ps)]"
    and "issued s (remove_doc eng i s) = [FindByIdAndRemove i]"
    by (simp_all add: get_requests remove_doc_requests)
next
  assume "data = Undefined \<or> data = Null"
  then show "issued s (create eng data s) = []"
    by (auto simp: create_absent)
qed

theorem requests_per_call_witness:
  "(Some [] = (None :: ident list option) \<or> Some [] = Some ([] :: ident list)) \<and>
   issued five (removeMany mem_engine (Some []) five) = [DeleteMany MatchAll] \<and>
   [id1, id2] \<noteq> [] \<and> fails flaky_engine five (DeleteMany (IdIn [id1, id2])) \<and>
   issued five (removeMany flaky_engine (Some [id1, id2]) five) =
     [DeleteMany (IdIn [id1, id2])] \<and>
   (''not-an-id'' = [] \<or> \<not> isValid mem_engine ''not-an-id'') \<and>
   issued five (get mem_engine ''not-an-id'' None five) = [] \<and>
   issued five (remove_doc mem_engine ''not-an-id'' five) = [] \<and>
   id1 \<noteq> [] \<and> isValid mem_engine id1 \<and>
   issued five (get mem_engine id1 None five) = [FindById id1 []] \<and>
   issued five (remove_doc mem_engine id1 five) = [FindByIdAndRemove id1] \<and>
   ((Undefined :: plain payload) = Undefined \<or> (Undefined :: plain payload) = Null) \<and>
   issued five (create mem_engine Undefined five) = [] \<and>
   issued five (createMany mem_engine [[(''name'', ''f'')]] five) = []"
proof -
  have h1: "Some [] = (None :: ident list option) \<or> Some [] = Some ([] :: ident list)"
    by simp
  have h2: "[id1, id2] \<noteq> [] \<and> fails flaky_engine five (DeleteMany (IdIn [id1, id2]))"
    by simp
  have h3: "''not-an-id'' = [] \<or> \<not> isValid mem_engine ''not-an-id''"
    by (simp add: invalid_id)
  have h4: "id1 \<noteq> [] \<and> isValid mem_engine id1"
    by (simp add: valid_ids) (simp add: id1_def)
  have h5: "(Undefined :: plain payload) = Undefined \<or> (Undefined :: plain payload) = Null"
    by simp
  note a = requests_per_call [where eng = mem_engine and s = five and ids = "Some []"
      and i = "''not-an-id''" and p = None and data = Undefined
      and ks = "[[(''name'', ''f'')]]"]
  note b = requests_per_call [where eng = flaky_engine and s = five and js = "[id1, id2]"]
  note c = requests_per_call [where eng = mem_engine and s = five and i = id1 and p = None]
  have r1: "issued five (removeMany mem_engine (Some []) five) = [DeleteMany MatchAll]"
    using h1 a by blast
  have r2: "issued five (removeMany flaky_engine (Some [id1, id2]) five) =
     [DeleteMany (IdIn [id1, id2])]"
    using h2 b by blast
  have r3: "issued five (get mem_engine ''not-an-id'' None five) = [] \<and>
     issued five (remove_doc mem_engine ''not-an-id'' five) = []"
    using h3 a by blast
  have r4: "issued five (get mem_engine id1 None five) = [FindById id1 []] \<and>
     issued five (remove_doc mem_engine id1 five) = [FindByIdAndRemove id1]"
    using h4 c by simp
  have r5: "issued five (create mem_engine Undefined five) = []"
    using h5 a by blast
  have r6: "issued five (createMany mem_engine [[(''name'', ''f'')]] five) = []"
    using a by blast
  from h1 h2 h3 h4 h5 r1 r2 r3 r4 r5 r6 show ?thesis
    by blast
qed

text \<open>C4 as the specification words it (exactly one request for every call of
  \<^verbatim>\<open>removeMany\<close> and \<^verbatim>\<open>createMany\<close>) fails: \<^verbatim>\<open>createMany\<close> sends no request, and
  \<^verbatim>\<open>removeMany\<close> with two identifiers sends two.\<close>

theorem one_request_per_call_counterexample:
  "issued five (createMany mem_engine [[(''name'', ''f'')]] five) = [] \<and>
   issued five (removeMany mem_engine (Some [id1, id2]) five) =
     [DeleteMany (IdIn [id1, id2]), DeleteMany MatchAll]"
  by (simp add: createMany_def removeMany_def model_deleteMany_def issued_def five_def)

subsection \<open>Pagination\<close>

lemma cursor_all:
  "cursor eng \<lparr>q_filter = MatchAll, q_projection = pr, q_sort = so, q_skip = Some (Finite sk),
      q_limit = Some (Finite li)\<rparr> ds =
     map (lean eng pr) (take (nat li) (drop (nat sk) (ordered eng so ds)))"
  by (simp add: cursor_def limited_def skipped_def)

lemma cursor_unskipped:
  "cursor eng \<lparr>q_filter = Filter f, q_projection = pr, q_sort = so, q_skip = None,
      q_limit = Some (Finite li)\<rparr> ds =
     map (lean eng pr) (take (nat li) (ordered eng so (filter (matches eng f) ds)))"
proof -
  have "selects eng (Filter f) = matches eng f"
    by (rule ext) simp
  then show ?thesis
    by (simp add: cursor_def limited_def skipped_def)
qed

lemma getAll_page:
  "js_gt0 n \<Longrightarrow>
     getAll eng (Some limit) (Some n) so p s =
       exec eng
         \<lparr>q_filter = MatchAll, q_projection = Some (case p of None \<Rightarrow> [] | Some ps \<Rightarrow> ps),
          q_sort = so, q_skip = Some (js_mul limit (js_sub n (Finite 1))),
          q_limit = Some limit\<rparr> s"
  by (simp add: getAll_query)

lemma getAll_exact:
  "0 < g \<Longrightarrow> g \<le> 2 ^ 53 \<Longrightarrow> \<bar>l * (g - 1)\<bar> < 2 ^ 53 \<Longrightarrow>
     getAll eng (Some (Finite l)) (Some (Finite g)) so p s =
       exec eng
         \<lparr>q_filter = MatchAll, q_projection = Some (case p of None \<Rightarrow> [] | Some ps \<Rightarrow> ps),
          q_sort = so, q_skip = Some (Finite (l * (g - 1))), q_limit = Some (Finite l)\<rparr> s"
proof -
  assume a: "0 < g" and b: "g \<le> 2 ^ 53" and c: "\<bar>l * (g - 1)\<bar> < 2 ^ 53"
  have e: "js_mul (Finite l) (js_sub (Finite g) (Finite 1)) = Finite (l * (g - 1))"
    using a b c by (rule skip_exact)
  have "js_gt0 (Finite g)"
    using a by simp
  then show ?thesis
    by (simp only: getAll_page e)
qed

lemma getAll_result:
  "0 < g \<Longrightarrow> g \<le> 2 ^ 53 \<Longrightarrow> \<bar>l * (g - 1)\<bar> < 2 ^ 53 \<Longrightarrow> \<forall>r. \<not> fails eng s r \<Longrightarrow>
     fst (getAll eng (Some (Finite l)) (Some (Finite g)) so p s) =
       Inr (map (lean eng (Some (case p of None \<Rightarrow> [] | Some ps \<Rightarrow> ps)))
              (take (nat l) (drop (nat (l * (g - 1))) (ordered eng so (docs s)))))"
  by (simp add: getAll_exact exec_ok cursor_all)

text \<open>
  C5. \<^verbatim>\<open>getAll\<close> sends one query over all records: its limit is the \<open>limit\<close> given, 20 when
  none is given; its page is the \<open>page\<close> given, 1 when none is given; when the page is
  positive the query skips \<open>limit * (page - 1)\<close> records, the product of the source, and
  otherwise has no skip. That product is the product of the integers while both \<open>page\<close> and the
  product are integers a double holds exactly. The engine skips before it limits: on a
  collection of five records \<open>a, b, c, d, e\<close> (in the order asked for), with limit 2, page 1
  returns \<open>a, b\<close>, page 2 returns \<open>c, d\<close> and page 3 returns \<open>e\<close>.
\<close>

theorem getAll_pagination:
  "getAll eng limit_arg page_arg so p s =
     exec eng
       \<lparr>q_filter = MatchAll,
        q_projection = Some (case p of None \<Rightarrow> [] | Some ps \<Rightarrow> ps),
        q_sort = so,
        q_skip = (if js_gt0 (case page_arg of None \<Rightarrow> Finite 1 | Some n \<Rightarrow> n)
                  then Some (js_mul (case limit_arg of None \<Rightarrow> Finite 20 | Some n \<Rightarrow> n)
                               (js_sub (case page_arg of None \<Rightarrow> Finite 1 | Some n \<Rightarrow> n)
                                  (Finite 1)))
                  else None),
        q_limit = Some (case limit_arg of None \<Rightarrow> Finite 20 | Some n \<Rightarrow> n)\<rparr> s \<and>
   getAll eng None None so p s =
     exec eng
       \<lparr>q_filter = MatchAll, q_projection = Some (case p of None \<Rightarrow> [] | Some ps \<Rightarrow> ps),
        q_sort = so, q_skip = Some (Finite 0), q_limit = Some (Finite 20)\<rparr> s \<and>
   (0 < g \<and> g \<le> 2 ^ 53 \<and> \<bar>l * (g - 1)\<bar> < 2 ^ 53 \<longrightarrow>
      getAll eng (Some (Finite l)) (Some (Finite g)) so p s =
        exec eng
          \<lparr>q_filter = MatchAll, q_projection = Some (case p of None \<Rightarrow> [] | Some ps \<Rightarrow> ps),
           q_sort = so, q_skip = Some (Finite (l * (g - 1))), q_limit = Some (Finite l)\<rparr> s) \<and>
   (ordered eng so (docs s) = [a, b, c, d, e] \<and> (\<forall>r. \<not> fails eng s r) \<longrightarrow>
      fst (getAll eng (Some (Finite 2)) (Some (Finite 1)) so p s) =
        Inr (map (lean eng (Some (case p of None \<Rightarrow> [] | Some ps \<Rightarrow> ps))) [a, b]) \<and>
      fst (getAll eng (Some (Finite 2)) (Some (Finite 2)) so p s) =
        Inr (map (lean eng (Some (case p of None \<Rightarrow> [] | Some ps \<Rightarrow> ps))) [c, d]) \<and>
      fst (getAll eng (Some (Finite 2)) (Some (Finite 3)) so p s) =
        Inr (map (lean eng (Some (case p of None \<Rightarrow> [] | Some ps \<Rightarrow> ps))) [e]))"
proof (intro conjI impI)
  show "getAll eng limit_arg page_arg so p s =
     exec eng
       \<lparr>q_filter = MatchAll,
        q_projection = Some (case p of None \<Rightarrow> [] | Some ps \<Rightarrow> ps),
        q_sort = so,
        q_skip = (if js_gt0 (case page_arg of None \<Rightarrow> Finite 1 | Some n \<Rightarrow> n)
                  then Some (js_mul (case limit_arg of None \<Rightarrow> Finite 20 | Some n \<Rightarrow> n)
                               (js_sub (case page_arg of None \<Rightarrow> Finite 1 | Some n \<Rightarrow> n)
                                  (Finite 1)))
                  else None),
        q_limit = Some (case limit_arg of None \<Rightarrow> Finite 20 | Some n \<Rightarrow> n)\<rparr> s"
    by (rule getAll_query)
next
  show "getAll eng None None so p s =
     exec eng
       \<lparr>q_filter = MatchAll, q_projection = Some (case p of None \<Rightarrow> [] | Some ps \<Rightarrow> ps),
        q_sort = so, q_skip = Some (Finite 0), q_limit = Some (Finite 20)\<rparr> s"
    by (simp add: getAll_query to_double_small)
next
  assume "0 < g \<and> g \<le> 2 ^ 53 \<and> \<bar>l * (g - 1)\<bar> < 2 ^ 53"
  then show "getAll eng (Some (Finite l)) (Some (Finite g)) so p s =
        exec eng
          \<lparr>q_filter = MatchAll, q_projection = Some (case p of None \<Rightarrow> [] | Some ps \<Rightarrow> ps),
           q_sort = so, q_skip = Some (Finite (l * (g - 1))), q_limit = Some (Finite l)\<rparr> s"
    by (simp add: getAll_exact)
next
  assume h: "ordered eng so (docs s) = [a, b, c, d, e] \<and> (\<forall>r. \<not> fails eng s r)"
  then show "fst (getAll eng (Some (Finite 2)) (Some (Finite 1)) so p s) =
        Inr (map (lean eng (Some (case p of None \<Rightarrow> [] | Some ps \<Rightarrow> ps))) [a, b])"
    by (simp add: getAll_result)
next
  assume h: "ordered eng so (docs s) = [a, b, c, d, e] \<and> (\<forall>r. \<not> fails eng s r)"
  have "nat 2 = Suc (Suc 0)"
    by simp
  with h show "fst (getAll eng (Some (Finite 2)) (Some (Finite 2)) so p s) =
        Inr (map (lean eng (Some (case p of None \<Rightarrow> [] | Some ps \<Rightarrow> ps))) [c, d])"
    by (simp add: getAll_result)
next
  assume h: "ordered eng so (docs s) = [a, b, c, d, e] \<and> (\<forall>r. \<not> fails eng s r)"
  have "nat 4 = Suc (Suc (Suc (Suc 0)))"
    by simp
  with h show "fst (getAll eng (Some (Finite 2)) (Some (Finite 3)) so p s) =
        Inr (map (lean eng (Some (case p of None \<Rightarrow> [] | Some ps \<Rightarrow> ps))) [e])"
    by (simp add: getAll_result)
qed

theorem getAll_pagination_witness:
  "(0::int) < 3 \<and> (3::int) \<le> 2 ^ 53 \<and> \<bar>(2::int) * (3 - 1)\<bar> < 2 ^ 53 \<and>
   ordered mem_engine None (docs five) =
     [(id1, [(''name'', ''a'')]), (id2, []), (id3, [(''name'', ''c'')]),
      (id4, [(''name'', ''d'')]), (id5, [(''name'', ''c'')])] \<and>
   (\<forall>r. \<not> fails mem_engine five r) \<and>
   getAll mem_engine (Some (Finite 2)) (Some (Finite 3)) None None five =
     exec mem_engine
       \<lparr>q_filter = MatchAll, q_projection = Some [], q_sort = None, q_skip = Some (Finite 4),
        q_limit = Some (Finite 2)\<rparr> five \<and>
   getAll mem_engine (Some (Finite 2)) None None None five =
     exec mem_engine
       \<lparr>q_filter = MatchAll, q_projection = Some [], q_sort = None, q_skip = Some (Finite 0),
        q_limit = Some (Finite 2)\<rparr> five \<and>
   getAll mem_engine (Some (Finite 3)) (Some (Finite 3002399751580332)) None None five =
     exec mem_engine
       \<lparr>q_filter = MatchAll, q_projection = Some [], q_sort = None,
        q_skip = Some (Finite 9007199254740992), q_limit = Some (Finite 3)\<rparr> five \<and>
   fst (getAll mem_engine (Some (Finite 2)) (Some (Finite 1)) None None five) =
     Inr [[(''_id'', id1), (''name'', ''a'')], [(''_id'', id2)]] \<and>
   fst (getAll mem_engine (Some (Finite 2)) (Some (Finite 2)) None None five) =
     Inr [[(''_id'', id3), (''name'', ''c'')], [(''_id'', id4), (''name'', ''d'')]] \<and>
   fst (getAll mem_engine (Some (Finite 2)) (Some (Finite 3)) None None five) =
     Inr [[(''_id'', id5), (''name'', ''c'')]]"
proof -
  have h1: "(0::int) < 3 \<and> (3::int) \<le> 2 ^ 53 \<and> \<bar>(2::int) * (3 - 1)\<bar> < 2 ^ 53"
    by simp
  have h2: "ordered mem_engine None (docs five) =
     [(id1, [(''name'', ''a'')]), (id2, []), (id3, [(''name'', ''c'')]),
      (id4, [(''name'', ''d'')]), (id5, [(''name'', ''c'')])]"
    by (simp add: ordered_def five_def)
  have h3: "\<forall>r. \<not> fails mem_engine five r"
    by simp
  note t = getAll_pagination [where eng = mem_engine and so = None and p = None and s = five
        and g = 3 and l = 2 and a = "(id1, [(''name'', ''a'')])" and b = "(id2, [])"
        and c = "(id3, [(''name'', ''c'')])" and d = "(id4, [(''name'', ''d'')])"
        and e = "(id5, [(''name'', ''c'')])"]
  have q: "getAll mem_engine (Some (Finite 2)) (Some (Finite 3)) None None five =
     exec mem_engine
       \<lparr>q_filter = MatchAll, q_projection = Some [], q_sort = None, q_skip = Some (Finite 4),
        q_limit = Some (Finite 2)\<rparr> five"
    using h1 t [THEN conjunct2, THEN conjunct2, THEN conjunct1] by simp
  have z: "to_double 0 = Finite 0"
    by (simp add: to_double_small)
  have d: "getAll mem_engine (Some (Finite 2)) None None None five =
     exec mem_engine
       \<lparr>q_filter = MatchAll, q_projection = Some [], q_sort = None, q_skip = Some (Finite 0),
        q_limit = Some (Finite 2)\<rparr> five"
    using t [where limit_arg = "Some (Finite 2)" and page_arg = None, THEN conjunct1]
    by (simp add: z)
  have b: "getAll mem_engine (Some (Finite 3)) (Some (Finite 3002399751580332)) None None five =
     exec mem_engine
       \<lparr>q_filter = MatchAll, q_projection = Some [], q_sort = None,
        q_skip = Some (Finite 9007199254740992), q_limit = Some (Finite 3)\<rparr> five"
    using t [where limit_arg = "Some (Finite 3)" and page_arg = "Some (Finite 3002399751580332)",
        THEN conjunct1]
    by (simp only: skip_rounded option.case js_gt0.simps list.case, simp)
  have r: "fst (getAll mem_engine (Some (Finite 2)) (Some (Finite 1)) None None five) =
       Inr [[(''_id'', id1), (''name'', ''a'')], [(''_id'', id2)]] \<and>
     fst (getAll mem_engine (Some (Finite 2)) (Some (Finite 2)) None None five) =
       Inr [[(''_id'', id3), (''name'', ''c'')], [(''_id'', id4), (''name'', ''d'')]] \<and>
     fst (getAll mem_engine (Some (Finite 2)) (Some (Finite 3)) None None five) =
       Inr [[(''_id'', id5), (''name'', ''c'')]]"
    using h2 h3 t [THEN conjunct2, THEN conjunct2, THEN conjunct2] by (simp add: project_def)
  from h1 h2 h3 q d b r show ?thesis
    by blast
qed

lemma find_docs_unskipped:
  "\<not> js_gt0 n \<Longrightarrow>
     find_docs eng f limit_arg (Some (Page n)) so p s =
       exec eng
         \<lparr>q_filter = Filter f, q_projection = p, q_sort = so, q_skip = None,
          q_limit = Some (case limit_arg of None \<Rightarrow> Finite 10 | Some n \<Rightarrow> n)\<rparr> s"
  by (simp add: find_docs_query)

lemma find_docs_no_page:
  "find_docs eng f limit_arg None so p s =
     exec eng
       \<lparr>q_filter = Filter f, q_projection = p, q_sort = so, q_skip = None,
        q_limit = Some (case limit_arg of None \<Rightarrow> Finite 10 | Some n \<Rightarrow> n)\<rparr> s"
  by (simp add: find_docs_query)

lemma find_docs_page:
  "js_gt0 n \<Longrightarrow>
     find_docs eng f (Some limit) (Some (Page n)) so p s =
       exec eng
         \<lparr>q_filter = Filter f, q_projection = p, q_sort = so,
          q_skip = Some (js_mul limit (js_sub n (Finite 1))), q_limit = Some limit\<rparr> s"
  by (simp add: find_docs_query)

lemma find_docs_exact:
  "0 < h \<Longrightarrow> h \<le> 2 ^ 53 \<Longrightarrow> \<bar>l * (h - 1)\<bar> < 2 ^ 53 \<Longrightarrow>
     find_docs eng f (Some (Finite l)) (Some (Page (Finite h))) so p s =
       exec eng
         \<lparr>q_filter = Filter f, q_projection = p, q_sort = so,
          q_skip = Some (Finite (l * (h - 1))), q_limit = Some (Finite l)\<rparr> s"
proof -
  assume a: "0 < h" and b: "h \<le> 2 ^ 53" and c: "\<bar>l * (h - 1)\<bar> < 2 ^ 53"
  have e: "js_mul (Finite l) (js_sub (Finite h) (Finite 1)) = Finite (l * (h - 1))"
    using a b c by (rule skip_exact)
  have "js_gt0 (Finite h)"
    using a by simp
  then show ?thesis
    by (simp only: find_docs_page e)
qed

text \<open>
  C6. \<^verbatim>\<open>find\<close> sends one query over the records that match the filter: its limit is the
  \<open>limit\<close> given, 10 when none is given; its page is the \<open>page\<close> given, 0 when none is given,
  also when a limit is. When no page is given, or the page is not positive, the query has no
  skip, so (for a positive limit, on an engine that serves the request) the result is the
  first \<open>limit\<close> records that match the filter, in the order asked for. When the page is
  positive the query skips \<open>limit * (page - 1)\<close> records, the product of the source, and is
  limited to \<open>limit\<close>: the skip and the limit of the query that \<^verbatim>\<open>getAll\<close> sends for the same
  arguments. That product is the product of the integers while both \<open>page\<close> and the product
  are integers a double holds exactly.
\<close>

theorem find_pagination:
  "find_docs eng f limit_arg page_arg so p s =
     exec eng
       \<lparr>q_filter = Filter f,
        q_projection = p,
        q_sort = so,
        q_skip = (case (case page_arg of None \<Rightarrow> Page (Finite 0) | Some a \<Rightarrow> a) of
                    Page n \<Rightarrow>
                      if js_gt0 n
                      then Some (js_mul (case limit_arg of None \<Rightarrow> Finite 10 | Some l \<Rightarrow> l)
                                   (js_sub n (Finite 1)))
                      else None
                  | Proj pr \<Rightarrow> None),
        q_limit = Some (case limit_arg of None \<Rightarrow> Finite 10 | Some n \<Rightarrow> n)\<rparr> s \<and>
   find_docs eng f None None so p s =
     exec eng
       \<lparr>q_filter = Filter f, q_projection = p, q_sort = so, q_skip = None,
        q_limit = Some (Finite 10)\<rparr> s \<and>
   find_docs eng f (Some limit) None so p s =
     exec eng
       \<lparr>q_filter = Filter f, q_projection = p, q_sort = so, q_skip = None,
        q_limit = Some limit\<rparr> s \<and>
   (g \<le> 0 \<longrightarrow>
      find_docs eng f (Some limit) (Some (Page (Finite g))) so p s =
        exec eng
          \<lparr>q_filter = Filter f, q_projection = p, q_sort = so, q_skip = None,
           q_limit = Some limit\<rparr> s) \<and>
   (0 < l \<and> (\<forall>r. \<not> fails eng s r) \<longrightarrow>
      fst (find_docs eng f (Some (Finite l)) None so p s) =
        Inr (map (lean eng p)
               (take (nat l) (ordered eng so (filter (matches eng f) (docs s)))))) \<and>
   (g \<le> 0 \<and> 0 < l \<and> (\<forall>r. \<not> fails eng s r) \<longrightarrow>
      fst (find_docs eng f (Some (Finite l)) (Some (Page (Finite g))) so p s) =
        Inr (map (lean eng p)
               (take (nat l) (ordered eng so (filter (matches eng f) (docs s)))))) \<and>
   (js_gt0 n \<longrightarrow>
      find_docs eng f (Some limit) (Some (Page n)) so p s =
        exec eng
          \<lparr>q_filter = Filter f, q_projection = p, q_sort = so,
           q_skip = Some (js_mul limit (js_sub n (Finite 1))), q_limit = Some limit\<rparr> s \<and>
      getAll eng (Some limit) (Some n) so gp s =
        exec eng
          \<lparr>q_filter = MatchAll, q_projection = Some (case gp of None \<Rightarrow> [] | Some ps \<Rightarrow> ps),
           q_sort = so, q_skip = Some (js_mul limit (js_sub n (Finite 1))),
           q_limit = Some limit\<rparr> s) \<and>
   (0 < h \<and> h \<le> 2 ^ 53 \<and> \<bar>l * (h - 1)\<bar> < 2 ^ 53 \<longrightarrow>
      find_docs eng f (Some (Finite l)) (Some (Page (Finite h))) so p s =
        exec eng
          \<lparr>q_filter = Filter f, q_projection = p, q_sort = so,
           q_skip = Some (Finite (l * (h - 1))), q_limit = Some (Finite l)\<rparr> s)"
proof (intro conjI impI)
  show "find_docs eng f limit_arg page_arg so p s =
     exec eng
       \<lparr>q_filter = Filter f,
        q_projection = p,
        q_sort = so,
        q_skip = (case (case page_arg of None \<Rightarrow> Page (Finite 0) | Some a \<Rightarrow> a) of
                    Page n \<Rightarrow>
                      if js_gt0 n
                      then Some (js_mul (case limit_arg of None \<Rightarrow> Finite 10 | Some l \<Rightarrow> l)
                                   (js_sub n (Finite 1)))
                      else None
                  | Proj pr \<Rightarrow> None),
        q_limit = Some (case limit_arg of None \<Rightarrow> Finite 10 | Some n \<Rightarrow> n)\<rparr> s"
    by (rule find_docs_query)
next
  show "find_docs eng f None None so p s =
     exec eng
       \<lparr>q_filter = Filter f, q_projection = p, q_sort = so, q_skip = None,
        q_limit = Some (Finite 10)\<rparr> s"
    by (simp add: find_docs_no_page)
next
  show "find_docs eng f (Some limit) None so p s =
     exec eng
       \<lparr>q_filter = Filter f, q_projection = p, q_sort = so, q_skip = None,
        q_limit = Some limit\<rparr> s"
    by (simp add: find_docs_no_page)
next
  assume "g \<le> 0"
  then show "find_docs eng f (Some limit) (Some (Page (Finite g))) so p s =
        exec eng
          \<lparr>q_filter = Filter f, q_projection = p, q_sort = so, q_skip = None,
           q_limit = Some limit\<rparr> s"
    by (simp add: find_docs_unskipped)
next
  assume "0 < l \<and> (\<forall>r. \<not> fails eng s r)"
  then show "fst (find_docs eng f (Some (Finite l)) None so p s) =
        Inr (map (lean eng p)
               (take (nat l) (ordered eng so (filter (matches eng f) (docs s)))))"
    by (simp add: find_docs_no_page exec_ok cursor_unskipped)
next
  assume "g \<le> 0 \<and> 0 < l \<and> (\<forall>r. \<not> fails eng s r)"
  then show "fst (find_docs eng f (Some (Finite l)) (Some (Page (Finite g))) so p s) =
        Inr (map (lean eng p)
               (take (nat l) (ordered eng so (filter (matches eng f) (docs s)))))"
    by (simp add: find_docs_unskipped exec_ok cursor_unskipped)
next
  assume "js_gt0 n"
  then show "find_docs eng f (Some limit) (Some (Page n)) so p s =
        exec eng
          \<lparr>q_filter = Filter f, q_projection = p, q_sort = so,
           q_skip = Some (js_mul limit (js_sub n (Finite 1))), q_limit = Some limit\<rparr> s"
    by (rule find_docs_page)
next
  assume "js_gt0 n"
  then show "getAll eng (Some limit) (Some n) so gp s =
        exec eng
          \<lparr>q_filter = MatchAll, q_projection = Some (case gp of None \<Rightarrow> [] | Some ps \<Rightarrow> ps),
           q_sort = so, q_skip = Some (js_mul limit (js_sub n (Finite 1))),
           q_limit = Some limit\<rparr> s"
    by (rule getAll_page)
next
  assume "0 < h \<and> h \<le> 2 ^ 53 \<and> \<bar>l * (h - 1)\<bar> < 2 ^ 53"
  then show "find_docs eng f (Some (Finite l)) (Some (Page (Finite h))) so p s =
        exec eng
          \<lparr>q_filter = Filter f, q_projection = p, q_sort = so,
           q_skip = Some (Finite (l * (h - 1))), q_limit = Some (Finite l)\<rparr> s"
    by (simp add: find_docs_exact)
qed

theorem find_pagination_witness:
  "(-1::int) \<le> 0 \<and> (0::int) < 1 \<and> (\<forall>r. \<not> fails mem_engine five r) \<and>
   js_gt0 (Finite 2) \<and> (0::int) < 2 \<and> (2::int) \<le> 2 ^ 53 \<and> \<bar>(1::int) * (2 - 1)\<bar> < 2 ^ 53 \<and>
   fst (find_docs mem_engine (''name'', ''c'') (Some (Finite 1)) None None None five) =
     Inr [[(''_id'', id3), (''name'', ''c'')]] \<and>
   fst (find_docs mem_engine (''name'', ''c'') (Some (Finite 1)) (Some (Page (Finite (-1)))) None
          None five) =
     Inr [[(''_id'', id3), (''name'', ''c'')]] \<and>
   issued five
     (find_docs mem_engine (''name'', ''c'') (Some (Finite 1)) (Some (Page (Finite (-1)))) None
        None five) =
     [Exec \<lparr>q_filter = Filter (''name'', ''c''), q_projection = None, q_sort = None,
            q_skip = None, q_limit = Some (Finite 1)\<rparr>] \<and>
   find_docs mem_engine (''name'', ''c'') (Some (Finite 1)) (Some (Page (Finite 2))) None None
     five =
     (Inr [[(''_id'', id5), (''name'', ''c'')]],
      received (Exec \<lparr>q_filter = Filter (''name'', ''c''), q_projection = None, q_sort = None,
                      q_skip = Some (Finite 1), q_limit = Some (Finite 1)\<rparr>) five)"
proof -
  have h: "(-1::int) \<le> 0 \<and> (0::int) < 1 \<and> (\<forall>r. \<not> fails mem_engine five r)"
    by simp
  have h1: "(0::int) < 1 \<and> (\<forall>r. \<not> fails mem_engine five r)"
    by simp
  have h2: "(0::int) < 2 \<and> (2::int) \<le> 2 ^ 53 \<and> \<bar>(1::int) * (2 - 1)\<bar> < 2 ^ 53"
    by simp
  have h3: "js_gt0 (Finite 2)"
    by simp
  have m: "filter (matches mem_engine (''name'', ''c'')) (docs five) =
             [(id3, [(''name'', ''c'')]), (id5, [(''name'', ''c'')])]"
    by (simp add: mem_engine_def five_def)
  have sel: "selects mem_engine (Filter (''name'', ''c'')) = matches mem_engine (''name'', ''c'')"
    by (rule ext) simp
  note t = find_pagination [where eng = mem_engine and f = "(''name'', ''c'')" and so = None
        and p = None and s = five and g = "-1" and l = 1 and limit = "Finite 1" and h = 2
        and n = "Finite 2"]
  have r0: "fst (find_docs mem_engine (''name'', ''c'') (Some (Finite 1)) None None None five) =
     Inr [[(''_id'', id3), (''name'', ''c'')]]"
    using h1 m t [THEN conjunct2, THEN conjunct2, THEN conjunct2, THEN conjunct2, THEN conjunct1]
    by (simp add: ordered_def project_def)
  have r: "fst (find_docs mem_engine (''name'', ''c'') (Some (Finite 1))
                  (Some (Page (Finite (-1)))) None None five) =
     Inr [[(''_id'', id3), (''name'', ''c'')]]"
    using h m
      t [THEN conjunct2, THEN conjunct2, THEN conjunct2, THEN conjunct2, THEN conjunct2,
         THEN conjunct1]
    by (simp add: ordered_def project_def)
  have q: "issued five
       (find_docs mem_engine (''name'', ''c'') (Some (Finite 1)) (Some (Page (Finite (-1)))) None
          None five) =
     [Exec \<lparr>q_filter = Filter (''name'', ''c''), q_projection = None, q_sort = None,
            q_skip = None, q_limit = Some (Finite 1)\<rparr>]"
    using h t [THEN conjunct2, THEN conjunct2, THEN conjunct2, THEN conjunct1]
    by (simp add: exec_issued)
  have v: "find_docs mem_engine (''name'', ''c'') (Some (Finite 1)) (Some (Page (Finite 2))) None
       None five =
     (Inr [[(''_id'', id5), (''name'', ''c'')]],
      received (Exec \<lparr>q_filter = Filter (''name'', ''c''), q_projection = None, q_sort = None,
                      q_skip = Some (Finite 1), q_limit = Some (Finite 1)\<rparr>) five)"
    using h2 m sel
      t [THEN conjunct2, THEN conjunct2, THEN conjunct2, THEN conjunct2, THEN conjunct2,
         THEN conjunct2, THEN conjunct2]
    by (simp add: exec_def cursor_def limited_def skipped_def ordered_def project_def)
  from h h2 h3 r0 r q v show ?thesis
    by blast
qed

end
